theory Spec2Isabelle
  imports Complex_Main
begin

section \<open>Python values\<close>

text \<open>
  The schema is what \<^verbatim>\<open>json.loads\<close> returns: \<^verbatim>\<open>None\<close>, booleans,
  integers, floats, strings, lists and dictionaries. A dictionary is an association list
  in insertion order; a dictionary built by Python never holds two equal keys, and a
  lookup takes the first binding. Floats are the finite ones, as rationals. Strings are
  lists of characters.
\<close>

datatype pyval =
    PNone
  | PBool bool
  | PInt int
  | PFloat rat
  | PStr string
  | PList "pyval list"
  | PDict "(pyval \<times> pyval) list"

text \<open>The exceptions the resolver can raise. \<open>KeyError\<close> and \<open>IndexError\<close> are the
  two subclasses of Python's \<open>LookupError\<close>.\<close>

datatype error = KeyError | IndexError | TypeError | AttributeError | RecursionError

type_synonym 'a result = "error + 'a"

text \<open>Sequencing of two steps: an exception raised by the first one propagates.\<close>

definition and_then :: "'a result \<Rightarrow> ('a \<Rightarrow> 'b result) \<Rightarrow> 'b result" where
  "and_then m f = (case m of Inl e \<Rightarrow> Inl e | Inr x \<Rightarrow> f x)"

text \<open>A \<^verbatim>\<open>for\<close> loop that updates a state and stops at the first exception.\<close>

fun for_each :: "('a \<Rightarrow> 's \<Rightarrow> 's result) \<Rightarrow> 'a list \<Rightarrow> 's \<Rightarrow> 's result" where
  "for_each body [] s = Inr s"
| "for_each body (x # xs) s = and_then (body x s) (for_each body xs)"

subsection \<open>Equality\<close>

text \<open>Python's \<^verbatim>\<open>==\<close>: \<^verbatim>\<open>True == 1 == 1.0\<close>, lists are compared element by
  element, dictionaries key by key whatever their order.\<close>

fun num_val :: "pyval \<Rightarrow> rat option" where
  "num_val (PBool b) = Some (if b then 1 else 0)"
| "num_val (PInt i) = Some (of_int i)"
| "num_val (PFloat r) = Some r"
| "num_val _ = None"

definition key_eq :: "pyval \<Rightarrow> pyval \<Rightarrow> bool" where
  "key_eq a b = (case (num_val a, num_val b) of
                   (Some x, Some y) \<Rightarrow> x = y
                 | (None, None) \<Rightarrow> a = b
                 | _ \<Rightarrow> False)"

fun dict_find :: "(pyval \<times> pyval) list \<Rightarrow> pyval \<Rightarrow> pyval option" where
  "dict_find [] key = None"
| "dict_find ((k, v) # kvs) key = (if key_eq k key then Some v else dict_find kvs key)"

fun py_eq :: "pyval \<Rightarrow> pyval \<Rightarrow> bool" where
  "py_eq (PList xs) (PList ys) = list_all2 py_eq xs ys"
| "py_eq (PDict a) (PDict b) =
     (length a = length b \<and>
      list_all (\<lambda>(k, v). case dict_find b k of None \<Rightarrow> False | Some w \<Rightarrow> py_eq v w) a)"
| "py_eq a b = key_eq a b"

subsection \<open>Operators and methods\<close>

text \<open>Lists and dictionaries have no hash: they are no dictionary keys.\<close>

fun hashable :: "pyval \<Rightarrow> bool" where
  "hashable (PList xs) = False"
| "hashable (PDict kvs) = False"
| "hashable _ = True"

fun is_prefix :: "string \<Rightarrow> string \<Rightarrow> bool" where
  "is_prefix [] s = True"
| "is_prefix (c # t) [] = False"
| "is_prefix (c # t) (d # s) = (c = d \<and> is_prefix t s)"

fun is_substring :: "string \<Rightarrow> string \<Rightarrow> bool" where
  "is_substring t [] = (t = [])"
| "is_substring t (c # s) = (is_prefix t (c # s) \<or> is_substring t s)"

text \<open>\<^verbatim>\<open>item in container\<close>: a key of a dictionary, an element of a list, a substring
  of a string.\<close>

fun py_contains :: "pyval \<Rightarrow> pyval \<Rightarrow> bool result" where
  "py_contains item (PDict kvs) =
     (if hashable item then Inr (dict_find kvs item \<noteq> None) else Inl TypeError)"
| "py_contains item (PList xs) = Inr (list_ex (\<lambda>x. py_eq x item) xs)"
| "py_contains (PStr t) (PStr s) = Inr (is_substring t s)"
| "py_contains item container = Inl TypeError"

text \<open>An index into a sequence: negative ones count from the end.\<close>

fun as_index :: "pyval \<Rightarrow> int option" where
  "as_index (PInt i) = Some i"
| "as_index (PBool b) = Some (if b then 1 else 0)"
| "as_index _ = None"

definition seq_get :: "'a list \<Rightarrow> int \<Rightarrow> 'a result" where
  "seq_get xs i =
     (if 0 \<le> i \<and> i < int (length xs) then Inr (xs ! nat i)
      else if i < 0 \<and> - int (length xs) \<le> i then Inr (xs ! nat (int (length xs) + i))
      else Inl IndexError)"

text \<open>\<^verbatim>\<open>container[key]\<close>.\<close>

fun py_getitem :: "pyval \<Rightarrow> pyval \<Rightarrow> pyval result" where
  "py_getitem (PDict kvs) key =
     (if hashable key
      then (case dict_find kvs key of None \<Rightarrow> Inl KeyError | Some v \<Rightarrow> Inr v)
      else Inl TypeError)"
| "py_getitem (PList xs) key =
     (case as_index key of None \<Rightarrow> Inl TypeError | Some i \<Rightarrow> seq_get xs i)"
| "py_getitem (PStr s) key =
     (case as_index key of None \<Rightarrow> Inl TypeError
      | Some i \<Rightarrow> and_then (seq_get s i) (\<lambda>c. Inr (PStr [c])))"
| "py_getitem container key = Inl TypeError"

text \<open>What a \<^verbatim>\<open>for\<close> loop runs over: the elements of a list, the keys of a
  dictionary, the characters of a string.\<close>

fun py_iter :: "pyval \<Rightarrow> pyval list result" where
  "py_iter (PList xs) = Inr xs"
| "py_iter (PDict kvs) = Inr (map fst kvs)"
| "py_iter (PStr s) = Inr (map (\<lambda>c. PStr [c]) s)"
| "py_iter v = Inl TypeError"

text \<open>\<^verbatim>\<open>x.copy()\<close>: only lists and dictionaries have the method.\<close>

fun py_copy :: "pyval \<Rightarrow> pyval result" where
  "py_copy (PList xs) = Inr (PList xs)"
| "py_copy (PDict kvs) = Inr (PDict kvs)"
| "py_copy v = Inl AttributeError"

text \<open>\<^verbatim>\<open>s.split(sep)\<close> for a separator of one character: never an empty list.\<close>

fun str_split :: "char \<Rightarrow> string \<Rightarrow> string list" where
  "str_split sep [] = [[]]"
| "str_split sep (c # s) =
     (if c = sep then [] # str_split sep s
      else (case str_split sep s of [] \<Rightarrow> [[c]] | w # ws \<Rightarrow> (c # w) # ws))"

text \<open>\<^verbatim>\<open>x.split("/")[-1]\<close>: only strings have the method.\<close>

fun ref_name :: "pyval \<Rightarrow> string result" where
  "ref_name (PStr s) = and_then (seq_get (str_split CHR ''/'' s) (- 1)) Inr"
| "ref_name v = Inl AttributeError"

text \<open>\<^verbatim>\<open>self.schema["definitions"][name]\<close>, \<open>defs\<close> being the dictionary
  \<^verbatim>\<open>self.schema["definitions"]\<close>.\<close>

definition definition_of :: "(pyval \<times> pyval) list \<Rightarrow> string \<Rightarrow> pyval result" where
  "definition_of defs name = py_getitem (PDict defs) (PStr name)"

section \<open>The resolver\<close>

text \<open>
  Python bounds the depth of the call stack and raises \<open>RecursionError\<close> beyond it.
  Each resolver function takes the number of frames that are left: with none left it
  raises, otherwise its body runs and every call it makes has one frame less.
\<close>

subsection \<open>\<^verbatim>\<open>_translate_type\<close>\<close>

definition translate_type :: "pyval \<Rightarrow> pyval" where
  "translate_type t =
     (if py_eq t (PStr ''array'') then PList []
      else if py_eq t (PStr ''string'') then PStr ''''
      else PDict [])"

subsection \<open>\<^verbatim>\<open>_get_type\<close>\<close>

text \<open>The loop over \<^verbatim>\<open>anyOf\<close>: the first alternative with a \<^verbatim>\<open>type\<close> other
  than \<^verbatim>\<open>"null"\<close> decides; \<open>None\<close> when the loop ends without one.\<close>

fun first_typed :: "pyval list \<Rightarrow> pyval option result" where
  "first_typed [] = Inr None"
| "first_typed (dic # rest) =
     and_then (py_contains (PStr ''type'') dic) (\<lambda>has_type.
       if has_type then
         and_then (py_getitem dic (PStr ''type'')) (\<lambda>t.
           if py_eq t (PStr ''null'') then first_typed rest
           else Inr (Some (translate_type t)))
       else first_typed rest)"

fun get_type :: "nat \<Rightarrow> (pyval \<times> pyval) list \<Rightarrow> pyval \<Rightarrow> pyval result" where
  "get_type 0 defs schema = Inl RecursionError"
| "get_type (Suc depth) defs schema =
     and_then (py_contains (PStr ''properties'') schema) (\<lambda>has_properties.
       if \<not> has_properties then
         and_then (py_contains (PStr ''type'') schema) (\<lambda>has_type.
           if has_type then
             and_then (py_getitem schema (PStr ''type'')) (\<lambda>t. Inr (translate_type t))
           else
             and_then (py_contains (PStr ''anyOf'') schema) (\<lambda>has_anyOf.
               if has_anyOf then
                 and_then (py_getitem schema (PStr ''anyOf'')) (\<lambda>alts.
                 and_then (py_iter alts) (\<lambda>dics.
                 and_then (first_typed dics) (\<lambda>found.
                   case found of None \<Rightarrow> Inr (PDict []) | Some v \<Rightarrow> Inr v)))
               else
                 and_then (py_contains (PStr ''$ref'') schema) (\<lambda>has_ref.
                   if has_ref then
                     and_then (py_getitem schema (PStr ''$ref'')) (\<lambda>r.
                     and_then (ref_name r) (\<lambda>name.
                     and_then (definition_of defs name) (\<lambda>target.
                       get_type depth defs target)))
                   else Inr (PDict []))))
       else Inr (PDict []))"

subsection \<open>\<^verbatim>\<open>_get_ndrm_type\<close>\<close>

text \<open>\<^verbatim>\<open>for n in ns: v.append(n)\<close>\<close>

definition append_all :: "'a list \<Rightarrow> 'a list \<Rightarrow> 'a list" where
  "append_all ns v = fold (\<lambda>n v. v @ [n]) ns v"

text \<open>The four lines that the source has twice, for an entry of \<^verbatim>\<open>allOf\<close> and for
  the node itself: the name behind \<^verbatim>\<open>$ref\<close>, its definition, and the chain of that
  definition appended to \<open>v\<close>. \<open>chain_of\<close> is the recursive call.\<close>

definition inherit ::
  "(pyval \<times> pyval) list \<Rightarrow> (string \<Rightarrow> pyval \<Rightarrow> string list result) \<Rightarrow> pyval \<Rightarrow> string list
     \<Rightarrow> string list result" where
  "inherit defs chain_of dic v =
     and_then (py_getitem dic (PStr ''$ref'')) (\<lambda>r.
     and_then (ref_name r) (\<lambda>new_name.
     and_then (definition_of defs new_name) (\<lambda>target.
     and_then (chain_of new_name target) (\<lambda>ns.
       Inr (append_all ns v)))))"

text \<open>The body of the loop over \<^verbatim>\<open>allOf\<close>.\<close>

definition chain_step ::
  "(pyval \<times> pyval) list \<Rightarrow> (string \<Rightarrow> pyval \<Rightarrow> string list result) \<Rightarrow> pyval \<Rightarrow> string list
     \<Rightarrow> string list result" where
  "chain_step defs chain_of dic v =
     and_then (py_contains (PStr ''$ref'') dic) (\<lambda>has_ref.
       if has_ref then inherit defs chain_of dic v else Inr v)"

fun get_ndrm_type :: "nat \<Rightarrow> (pyval \<times> pyval) list \<Rightarrow> string \<Rightarrow> pyval \<Rightarrow> string list result" where
  "get_ndrm_type 0 defs name schema = Inl RecursionError"
| "get_ndrm_type (Suc depth) defs name schema =
     (let v = [''ndrm:'' @ name] in
      and_then (py_contains (PStr ''allOf'') schema) (\<lambda>has_allOf.
        if has_allOf then
          and_then (py_getitem schema (PStr ''allOf'')) (\<lambda>entries.
          and_then (py_iter entries) (\<lambda>dics.
            for_each (chain_step defs (\<lambda>new_name target. get_ndrm_type depth defs new_name target))
              dics v))
        else
          and_then (py_contains (PStr ''$ref'') schema) (\<lambda>has_ref.
            if has_ref then
              inherit defs (\<lambda>new_name target. get_ndrm_type depth defs new_name target) schema v
            else Inr v)))"

subsection \<open>\<^verbatim>\<open>_get_prop_type\<close>\<close>

text \<open>The second loop over \<^verbatim>\<open>anyOf\<close>: at the first alternative with a
  \<^verbatim>\<open>$ref\<close> the source reads \<^verbatim>\<open>prop["$ref"]\<close>, the reference of the property
  and not of the alternative. The value \<open>resolve\<close> is what the \<^verbatim>\<open>return\<close> line
  computes. The loop ends without a \<^verbatim>\<open>return\<close> when no alternative has one: the
  function then returns \<^verbatim>\<open>None\<close>.\<close>

fun first_ref :: "pyval result \<Rightarrow> pyval list \<Rightarrow> pyval result" where
  "first_ref resolve [] = Inr PNone"
| "first_ref resolve (dic # rest) =
     and_then (py_contains (PStr ''$ref'') dic) (\<lambda>has_ref.
       if has_ref then resolve else first_ref resolve rest)"

fun get_prop_type :: "nat \<Rightarrow> (pyval \<times> pyval) list \<Rightarrow> pyval \<Rightarrow> pyval \<Rightarrow> pyval result" where
  "get_prop_type 0 defs name schema = Inl RecursionError"
| "get_prop_type (Suc depth) defs name schema =
     (case and_then (py_getitem schema (PStr ''properties'')) (\<lambda>props. py_getitem props name) of
        Inl KeyError \<Rightarrow> Inr (PStr '''')
      | Inl e \<Rightarrow> Inl e
      | Inr prop \<Rightarrow>
          and_then (py_contains (PStr ''type'') prop) (\<lambda>has_type.
            if has_type then
              and_then (py_getitem prop (PStr ''type'')) (\<lambda>t. Inr (translate_type t))
            else
              and_then (py_contains (PStr ''$ref'') prop) (\<lambda>has_ref.
                if has_ref then
                  and_then (py_getitem prop (PStr ''$ref'')) (\<lambda>r.
                  and_then (ref_name r) (\<lambda>mother.
                  and_then (definition_of defs mother) (\<lambda>target.
                    get_type depth defs target)))
                else
                  and_then (py_contains (PStr ''allOf'') prop) (\<lambda>has_allOf.
                    if has_allOf then Inr (PDict [])
                    else
                      and_then (py_contains (PStr ''anyOf'') prop) (\<lambda>has_anyOf.
                        if has_anyOf then
                          and_then (py_getitem prop (PStr ''anyOf'')) (\<lambda>alts.
                          and_then (py_iter alts) (\<lambda>dics.
                          and_then (first_typed dics) (\<lambda>found.
                            case found of
                              Some v \<Rightarrow> Inr v
                            | None \<Rightarrow>
                                and_then (py_getitem prop (PStr ''anyOf'')) (\<lambda>alts.
                                and_then (py_iter alts) (\<lambda>dics.
                                  first_ref
                                    (and_then (py_getitem prop (PStr ''$ref'')) (\<lambda>r.
                                     and_then (ref_name r) (\<lambda>mother.
                                     and_then (definition_of defs mother) (\<lambda>target.
                                       get_type depth defs target))))
                                    dics)))))
                        else Inr PNone)))))"

subsection \<open>\<^verbatim>\<open>_get_properties\<close>\<close>

text \<open>\<^verbatim>\<open>if not prop in out_props: out_props[prop] = props[prop]\<close>. A new key goes to
  the end of the dictionary.\<close>

definition add_prop :: "pyval \<Rightarrow> pyval \<Rightarrow> (pyval \<times> pyval) list \<Rightarrow> (pyval \<times> pyval) list result" where
  "add_prop props prop out_props =
     and_then (py_contains prop (PDict out_props)) (\<lambda>present.
       if \<not> present then
         and_then (py_getitem props prop) (\<lambda>v. Inr (out_props @ [(prop, v)]))
       else Inr out_props)"

text \<open>\<^verbatim>\<open>for prop in props: ...\<close>, the loop that the source runs on an entry's own
  \<^verbatim>\<open>properties\<close> and on the properties of a resolved reference.\<close>

definition merge_props :: "pyval \<Rightarrow> (pyval \<times> pyval) list \<Rightarrow> (pyval \<times> pyval) list result" where
  "merge_props props out_props =
     and_then (py_iter props) (\<lambda>names. for_each (add_prop props) names out_props)"

text \<open>\<^verbatim>\<open>if not prop in required: required.append(prop); required_types.append(t)\<close>,
  where \<open>new_type\<close> is the evaluation of \<open>t\<close>, which takes place in that branch only.\<close>

definition add_required ::
  "pyval result \<Rightarrow> pyval \<Rightarrow> pyval list \<times> pyval list \<Rightarrow> (pyval list \<times> pyval list) result" where
  "add_required new_type prop state =
     (case state of (required, required_types) \<Rightarrow>
        and_then (py_contains prop (PList required)) (\<lambda>present.
          if \<not> present then
            and_then new_type (\<lambda>t. Inr (required @ [prop], required_types @ [t]))
          else Inr (required, required_types)))"

text \<open>The loop over an entry's own \<^verbatim>\<open>required\<close>; \<open>prop_type\<close> is
  \<^verbatim>\<open>self._get_prop_type(prop, dic)\<close> as a function of \<open>prop\<close>.\<close>

definition merge_required ::
  "(pyval \<Rightarrow> pyval result) \<Rightarrow> pyval \<Rightarrow> pyval list \<times> pyval list \<Rightarrow> (pyval list \<times> pyval list) result" where
  "merge_required prop_type req state =
     and_then (py_iter req) (\<lambda>names.
       for_each (\<lambda>prop. add_required (prop_type prop) prop) names state)"

text \<open>\<^verbatim>\<open>enumerate\<close>\<close>

definition enumerate_from0 :: "'a list \<Rightarrow> (int \<times> 'a) list" where
  "enumerate_from0 xs = zip (map int [0..<length xs]) xs"

text \<open>The loop over the \<^verbatim>\<open>required\<close> of a resolved reference, which takes the
  default from the resolved list at the same position, \<^verbatim>\<open>tmp_req_types[i]\<close>.\<close>

definition merge_resolved_required ::
  "pyval \<Rightarrow> pyval list \<Rightarrow> pyval list \<times> pyval list \<Rightarrow> (pyval list \<times> pyval list) result" where
  "merge_resolved_required tmp_req tmp_req_types state =
     and_then (py_iter tmp_req) (\<lambda>names.
       for_each (\<lambda>(i, prop). add_required (seq_get tmp_req_types i) prop)
         (enumerate_from0 names) state)"

text \<open>The function returns a triple, or \<^verbatim>\<open>None\<close> where it ends without a
  \<^verbatim>\<open>return\<close>. Unpacking \<^verbatim>\<open>None\<close> into three names raises \<open>TypeError\<close>.\<close>

type_synonym triple = "pyval \<times> pyval \<times> pyval list"

text \<open>The state of the loop over \<^verbatim>\<open>allOf\<close>: \<^verbatim>\<open>out_props\<close>, \<^verbatim>\<open>required\<close> and
  \<^verbatim>\<open>required_types\<close>.\<close>

type_synonym merged = "(pyval \<times> pyval) list \<times> pyval list \<times> pyval list"

text \<open>The body of that loop. \<open>prop_type\<close> is \<^verbatim>\<open>self._get_prop_type\<close> and
  \<open>properties_of\<close> is the recursive call \<^verbatim>\<open>self._get_properties\<close>. The
  \<^verbatim>\<open>$ref\<close> of an entry is read in the \<^verbatim>\<open>elif\<close> of the test for
  \<^verbatim>\<open>required\<close>.\<close>

definition allOf_step ::
  "(pyval \<times> pyval) list \<Rightarrow> (pyval \<Rightarrow> pyval \<Rightarrow> pyval result) \<Rightarrow> (pyval \<Rightarrow> triple option result)
     \<Rightarrow> pyval \<Rightarrow> merged \<Rightarrow> merged result" where
  "allOf_step defs prop_type properties_of dic state =
     (case state of (out_props, required, required_types) \<Rightarrow>
        and_then (py_contains (PStr ''properties'') dic) (\<lambda>has_properties.
        and_then
          (if has_properties then
             and_then (py_getitem dic (PStr ''properties'')) (\<lambda>props.
               merge_props props out_props)
           else Inr out_props) (\<lambda>out_props.
        and_then (py_contains (PStr ''required'') dic) (\<lambda>has_required.
          if has_required then
            and_then (py_getitem dic (PStr ''required'')) (\<lambda>req.
            and_then (merge_required (\<lambda>prop. prop_type prop dic) req (required, required_types))
              (\<lambda>(required, required_types). Inr (out_props, required, required_types)))
          else
            and_then (py_contains (PStr ''$ref'') dic) (\<lambda>has_ref.
              if has_ref then
                and_then (py_getitem dic (PStr ''$ref'')) (\<lambda>r.
                and_then (ref_name r) (\<lambda>name.
                and_then (definition_of defs name) (\<lambda>target.
                and_then (properties_of target) (\<lambda>resolved.
                  case resolved of
                    None \<Rightarrow> Inl TypeError
                  | Some (tmp_props, tmp_req, tmp_req_types) \<Rightarrow>
                      and_then (merge_props tmp_props out_props) (\<lambda>out_props.
                      and_then (merge_resolved_required tmp_req tmp_req_types
                                  (required, required_types))
                        (\<lambda>(required, required_types).
                           Inr (out_props, required, required_types)))))))
              else Inr (out_props, required, required_types))))))"

fun is_dict :: "pyval \<Rightarrow> bool" where
  "is_dict (PDict kvs) = True"
| "is_dict v = False"

fun get_properties :: "nat \<Rightarrow> (pyval \<times> pyval) list \<Rightarrow> pyval \<Rightarrow> triple option result" where
  "get_properties 0 defs schema = Inl RecursionError"
| "get_properties (Suc depth) defs schema =
     and_then (get_type depth defs schema) (\<lambda>ty.
       if is_dict ty then
         and_then (py_contains (PStr ''properties'') schema) (\<lambda>has_properties.
           if has_properties then
             and_then (py_contains (PStr ''required'') schema) (\<lambda>has_required.
             and_then
               (if has_required then
                  and_then (py_getitem schema (PStr ''required'')) (\<lambda>req.
                  and_then (py_copy req) (\<lambda>required.
                  and_then (py_iter required) (\<lambda>names.
                  and_then (for_each (\<lambda>req required_types.
                              and_then (get_prop_type depth defs req schema) (\<lambda>t.
                                Inr (required_types @ [t]))) names []) (\<lambda>required_types.
                    Inr (required, required_types)))))
                else Inr (PList [], []))
               (\<lambda>(required, required_types).
                  and_then (py_getitem schema (PStr ''properties'')) (\<lambda>props.
                  and_then (py_copy props) (\<lambda>props_copy.
                    Inr (Some (props_copy, required, required_types))))))
           else
             and_then (py_contains (PStr ''$ref'') schema) (\<lambda>has_ref.
               if has_ref then
                 and_then (py_getitem schema (PStr ''$ref'')) (\<lambda>r.
                 and_then (ref_name r) (\<lambda>name.
                 and_then (definition_of defs name) (\<lambda>target.
                   get_properties depth defs target)))
               else
                 and_then (py_contains (PStr ''allOf'') schema) (\<lambda>has_allOf.
                   if has_allOf then
                     and_then (py_getitem schema (PStr ''allOf'')) (\<lambda>entries.
                     and_then (py_iter entries) (\<lambda>dics.
                     and_then
                       (for_each
                          (allOf_step defs (\<lambda>prop dic. get_prop_type depth defs prop dic)
                             (\<lambda>target. get_properties depth defs target))
                          dics ([], [], []))
                       (\<lambda>(out_props, required, required_types).
                          Inr (Some (PDict out_props, PList required, required_types)))))
                   else Inr None)))
       else Inr (Some (PDict [], PList [], [])))"

section \<open>Vocabulary of the properties\<close>

text \<open>The value a schema node has under a key, if it is a dictionary with that key.\<close>

fun field :: "pyval \<Rightarrow> string \<Rightarrow> pyval option" where
  "field (PDict kvs) k = map_of kvs (PStr k)"
| "field v k = None"

text \<open>An alternative of \<^verbatim>\<open>anyOf\<close> that carries a \<^verbatim>\<open>type\<close> other than
  \<^verbatim>\<open>"null"\<close>.\<close>

definition typed_alternative :: "pyval \<Rightarrow> bool" where
  "typed_alternative d = (case field d ''type'' of None \<Rightarrow> False | Some t \<Rightarrow> t \<noteq> PStr ''null'')"

text \<open>The results of a function on the elements of a list, in their order, up to the
  first exception.\<close>

fun collect :: "('a \<Rightarrow> 'b result) \<Rightarrow> 'a list \<Rightarrow> 'b list result" where
  "collect f [] = Inr []"
| "collect f (x # xs) = and_then (f x) (\<lambda>y. and_then (collect f xs) (\<lambda>ys. Inr (y # ys)))"

text \<open>The full chain of the definition that the \<^verbatim>\<open>$ref\<close> of a node names.\<close>

definition ref_chain :: "nat \<Rightarrow> (pyval \<times> pyval) list \<Rightarrow> pyval \<Rightarrow> string list result" where
  "ref_chain depth defs dic =
     and_then (py_getitem dic (PStr ''$ref'')) (\<lambda>r.
     and_then (ref_name r) (\<lambda>name.
     and_then (definition_of defs name) (\<lambda>target.
       get_ndrm_type depth defs name target)))"


text \<open>The elements of a list in the order of their first occurrence.\<close>

definition first_seen :: "'a list \<Rightarrow> 'a list" where
  "first_seen xs = rev (remdups (rev xs))"



subsection \<open>What the entries of allOf contribute\<close>


text \<open>The bindings of an association list that a lookup reaches: the keys in the order of
  their first occurrence, each with its first binding. The later bindings of a key are
  left out.\<close>

definition first_writer :: "('k \<times> 'v) list \<Rightarrow> ('k \<times> 'v) list" where
  "first_writer kvs = map (\<lambda>k. (k, the (map_of kvs k))) (first_seen (map fst kvs))"


text \<open>\<^verbatim>\<open>_get_properties\<close> on the definition that the \<^verbatim>\<open>$ref\<close> of an entry
  names.\<close>

definition resolved :: "nat \<Rightarrow> (pyval \<times> pyval) list \<Rightarrow> pyval \<Rightarrow> triple option result" where
  "resolved depth defs d =
     and_then (py_getitem d (PStr ''$ref'')) (\<lambda>r.
     and_then (ref_name r) (\<lambda>name.
     and_then (definition_of defs name) (\<lambda>target.
       get_properties depth defs target)))"



subsection \<open>Sub-schemas with one default\<close>


subsection \<open>Example schemas\<close>

text \<open>A JSON object, a reference to a definition and a node with only a type.\<close>

definition obj :: "(string \<times> pyval) list \<Rightarrow> pyval" where
  "obj kvs = PDict (map (\<lambda>(k, v). (PStr k, v)) kvs)"

definition ref_to :: "string \<Rightarrow> pyval" where
  "ref_to name = obj [(''$ref'', PStr (''#/definitions/'' @ name))]"

definition of_type :: "string \<Rightarrow> pyval" where
  "of_type t = obj [(''type'', PStr t)]"

text \<open>\<^verbatim>\<open>{"Foo": {"$ref": "#/definitions/Bar"}, "Bar": {"$ref": "#/definitions/Baz"},
  "Baz": {"type": "object"}}\<close>\<close>

definition chain_defs :: "(pyval \<times> pyval) list" where
  "chain_defs = [(PStr ''Foo'', ref_to ''Bar''), (PStr ''Bar'', ref_to ''Baz''),
                 (PStr ''Baz'', of_type ''object'')]"

text \<open>Two definitions that inherit from the same one.\<close>

definition diamond_defs :: "(pyval \<times> pyval) list" where
  "diamond_defs = [(PStr ''Left'', ref_to ''Top''), (PStr ''Right'', ref_to ''Top''),
                   (PStr ''Top'', of_type ''object'')]"

text \<open>\<^verbatim>\<open>{"Base": {"properties": {"x": {"type": "string"}}, "required": ["x"]},
  "Bar": {"type": "string"}}\<close>\<close>

definition base_defs :: "(pyval \<times> pyval) list" where
  "base_defs = [(PStr ''Base'', obj [(''properties'', obj [(''x'', of_type ''string'')]),
                                    (''required'', PList [PStr ''x''])]),
                (PStr ''Bar'', of_type ''string'')]"









text \<open>\<^verbatim>\<open>{"allOf": [{"$ref": "#/definitions/Ghost", "required": []}]}\<close>, where no
  definition has the name \<^verbatim>\<open>Ghost\<close>.\<close>

definition silent_parent :: pyval where
  "silent_parent = obj [(''allOf'', PList [obj [(''$ref'', PStr ''#/definitions/Ghost''),
                                                (''required'', PList [])]])]"

section \<open>Basic facts\<close>

lemma and_then_Inl [simp]: "and_then (Inl e) f = Inl e"
  by (simp add: and_then_def)

lemma and_then_Inr [simp]: "and_then (Inr x) f = f x"
  by (simp add: and_then_def)

lemma key_eq_PStr [simp]: "key_eq k (PStr s) \<longleftrightarrow> k = PStr s"
  by (cases k) (auto simp: key_eq_def)

lemma key_eq_PStr_left [simp]: "key_eq (PStr s) k \<longleftrightarrow> k = PStr s"
  by (cases k) (auto simp: key_eq_def)

lemma py_eq_PStr [simp]: "py_eq x (PStr s) \<longleftrightarrow> x = PStr s"
  by (cases x) auto

lemma py_eq_PStr_left [simp]: "py_eq (PStr s) x \<longleftrightarrow> x = PStr s"
  by (cases x) auto

lemma dict_find_PStr [simp]: "dict_find kvs (PStr s) = map_of kvs (PStr s)"
  by (induction kvs) auto

lemma contains_field [simp]:
  "is_dict d \<Longrightarrow> py_contains (PStr k) d = Inr (field d k \<noteq> None)"
  by (cases d) auto

lemma getitem_field [simp]:
  "is_dict d \<Longrightarrow> py_getitem d (PStr k) = (case field d k of None \<Rightarrow> Inl KeyError | Some v \<Rightarrow> Inr v)"
  by (cases d) auto

lemma str_split_not_Nil [simp]: "str_split sep s \<noteq> []"
  by (induction s) (auto split: list.splits)

lemma seq_get_last: "xs \<noteq> [] \<Longrightarrow> seq_get xs (- 1) = Inr (last xs)"
  by (cases xs rule: rev_cases) (simp_all add: seq_get_def nth_append)

lemma seq_get_split_last [simp]: "seq_get (str_split sep s) (- 1) = Inr (last (str_split sep s))"
  by (simp add: seq_get_last)

lemma translate_type_cases:
  "translate_type t =
     (if t = PStr ''array'' then PList [] else if t = PStr ''string'' then PStr '''' else PDict [])"
  by (simp add: translate_type_def)

lemma first_typed_find:
  "\<forall>d \<in> set alts. is_dict d \<Longrightarrow>
   first_typed alts = Inr (case find typed_alternative alts of
                             None \<Rightarrow> None
                           | Some d \<Rightarrow> Some (translate_type (the (field d ''type''))))"
  by (induction alts) (auto simp: typed_alternative_def split: option.splits)

lemma append_all_append [simp]: "append_all ns v = v @ ns"
  unfolding append_all_def by (induction ns arbitrary: v) auto

lemma inherit_ref_chain:
  "inherit defs (\<lambda>n t. get_ndrm_type depth defs n t) dic v =
     and_then (ref_chain depth defs dic) (\<lambda>ns. Inr (v @ ns))"
  by (simp add: inherit_def ref_chain_def and_then_def split: sum.splits)

lemma chain_loop_collect:
  "\<forall>d \<in> set entries. is_dict d \<Longrightarrow>
   for_each (chain_step defs (\<lambda>n t. get_ndrm_type depth defs n t)) entries v =
     and_then (collect (ref_chain depth defs) (filter (\<lambda>d. field d ''$ref'' \<noteq> None) entries))
       (\<lambda>chains. Inr (v @ concat chains))"
proof (induction entries arbitrary: v)
  case Nil
  then show ?case by simp
next
  case (Cons d entries)
  then show ?case
    by (simp add: chain_step_def inherit_ref_chain and_then_def split: sum.splits)
qed

section \<open>Loops\<close>


lemma remdups_snoc: "remdups (xs @ [n]) = filter (\<lambda>x. x \<noteq> n) (remdups xs) @ [n]"
  by (induction xs) auto

lemma first_seen_Nil [simp]: "first_seen [] = []"
  by (simp add: first_seen_def)

lemma first_seen_Cons [simp]: "first_seen (n # ns) = n # filter (\<lambda>x. x \<noteq> n) (first_seen ns)"
  by (simp add: first_seen_def remdups_snoc rev_filter)


lemma for_each_append:
  "for_each body (xs @ ys) s = and_then (for_each body xs s) (for_each body ys)"
  by (induction xs arbitrary: s) (auto simp: and_then_def split: sum.splits)



lemma key_eq_refl [simp]: "key_eq a a"
  by (cases a) (auto simp: key_eq_def)


subsection \<open>The loop over properties\<close>





subsection \<open>The loops over required names\<close>






subsection \<open>The loop over the entries of allOf\<close>











lemma get_properties_allOf:
  assumes "is_dict node"
      and "field node ''properties'' = None"
      and "field node ''$ref'' = None"
      and "field node ''allOf'' = Some (PList entries)"
      and "get_type depth defs node = Inr ty" and "is_dict ty"
  shows "get_properties (Suc depth) defs node =
           and_then (for_each (allOf_step defs (get_prop_type depth defs) (get_properties depth defs))
                       entries ([], [], []))
             (\<lambda>(out_props, required, required_types).
                Inr (Some (PDict out_props, PList required, required_types)))"
  using assms by (simp del: get_type.simps)

subsection \<open>The defaults of the required names\<close>





subsection \<open>The result of the merge\<close>


lemma set_first_seen [simp]: "set (first_seen xs) = set xs"
  by (simp add: first_seen_def)

lemma distinct_first_seen [simp]: "distinct (first_seen xs)"
  by (simp add: first_seen_def)

lemma first_writer_Nil [simp]: "first_writer [] = []"
  by (simp add: first_writer_def)


lemma fst_first_writer [simp]: "map fst (first_writer kvs) = first_seen (map fst kvs)"
  by (simp add: first_writer_def comp_def)

lemma keys_first_writer [simp]: "fst ` set (first_writer kvs) = fst ` set kvs"
proof -
  have "set (map fst (first_writer kvs)) = set (first_seen (map fst kvs))"
    by (simp only: fst_first_writer)
  then show ?thesis by (simp only: set_map set_first_seen)
qed

lemma map_of_first_writer [simp]: "map_of (first_writer kvs) k = map_of kvs k"
proof (cases "k \<in> fst ` set kvs")
  case True
  then obtain v where v: "map_of kvs k = Some v"
    by (metis map_of_eq_None_iff not_Some_eq)
  have "map_of (map (\<lambda>k. (k, the (map_of kvs k))) (first_seen (map fst kvs))) k = Some (the (map_of kvs k))"
    using True by (simp add: map_of_map_restrict restrict_map_def)
  then show ?thesis using v by (simp add: first_writer_def)
next
  case False
  then have "map_of kvs k = None" by (simp add: map_of_eq_None_iff)
  moreover have "map_of (first_writer kvs) k = None"
    using False by (simp add: map_of_eq_None_iff)
  ultimately show ?thesis by simp
qed






















subsection \<open>Entries that name an unknown definition\<close>

lemma for_each_raises:
  assumes "d \<in> set xs" and "\<And>s. \<exists>e. body d s = Inl e"
  shows "\<exists>e. for_each body xs s = Inl e"
  using assms(1)
proof (induction xs arbitrary: s)
  case Nil
  then show ?case by simp
next
  case (Cons x xs)
  show ?case
  proof (cases "body x s")
    case (Inl e)
    then show ?thesis by simp
  next
    case (Inr s1)
    with Cons assms(2) [of s] show ?thesis by auto
  qed
qed

lemma for_each_skips:
  assumes "\<And>x s. x \<in> set xs \<Longrightarrow> body x s = Inr s"
  shows "for_each body xs s = Inr s"
  using assms by (induction xs) auto

lemma chain_step_unknown:
  assumes "is_dict node" and "field node ''$ref'' = Some (PStr path)"
      and "definition_of defs (last (str_split CHR ''/'' path)) = Inl KeyError"
  shows "chain_step defs chain_of node v = Inl KeyError"
  using assms by (simp add: chain_step_def inherit_def)

lemma chain_step_no_ref:
  assumes "is_dict d" and "field d ''$ref'' = None"
  shows "chain_step defs chain_of d v = Inr v"
  using assms by (simp add: chain_step_def)

lemma allOf_step_unknown:
  assumes "is_dict node" and "field node ''$ref'' = Some (PStr path)"
      and "definition_of defs (last (str_split CHR ''/'' path)) = Inl KeyError"
      and "field node ''required'' = None"
  shows "\<exists>e. allOf_step defs pt po node s = Inl e"
    and "field node ''properties'' = None \<Longrightarrow> allOf_step defs pt po node s = Inl KeyError"
proof -
  obtain out req tys where s: "s = (out, req, tys)" by (cases s)
  show "field node ''properties'' = None \<Longrightarrow> allOf_step defs pt po node s = Inl KeyError"
    using assms by (simp add: allOf_step_def s)
  show "\<exists>e. allOf_step defs pt po node s = Inl e"
  proof (cases "field node ''properties''")
    case None
    then show ?thesis using assms by (simp add: allOf_step_def s)
  next
    case (Some props)
    show ?thesis
    proof (cases "merge_props props out")
      case (Inl e)
      then show ?thesis using assms Some by (simp add: allOf_step_def s)
    next
      case (Inr out1)
      then show ?thesis using assms Some by (simp add: allOf_step_def s)
    qed
  qed
qed

lemma allOf_step_plain:
  assumes "is_dict d" and "field d ''properties'' = None" and "field d ''required'' = None"
      and "field d ''$ref'' = None"
  shows "allOf_step defs pt po d s = Inr s"
  using assms by (cases s) (simp add: allOf_step_def)

section \<open>The default value of a node\<close>

text \<open>
  C4. A node that is a dictionary without \<^verbatim>\<open>properties\<close>, \<^verbatim>\<open>$ref\<close> and
  \<^verbatim>\<open>anyOf\<close> (with or without \<^verbatim>\<open>allOf\<close>, which \<^verbatim>\<open>_get_type\<close> never reads):
  with one frame left or more, \<^verbatim>\<open>_get_type\<close> returns, and never raises. It returns the
  empty list when \<^verbatim>\<open>type\<close> is \<^verbatim>\<open>"array"\<close>, the empty string when it is
  \<^verbatim>\<open>"string"\<close>, and the empty dictionary for any other type and for no type at all.
\<close>

theorem get_type_plain:
  assumes "is_dict node"
      and "field node ''properties'' = None"
      and "field node ''$ref'' = None"
      and "field node ''anyOf'' = None"
  shows "get_type (Suc depth) defs node =
           Inr (case field node ''type'' of
                  None \<Rightarrow> PDict []
                | Some t \<Rightarrow> if t = PStr ''array'' then PList []
                            else if t = PStr ''string'' then PStr ''''
                            else PDict [])"
  using assms by (simp add: translate_type_cases split: option.splits)

theorem get_type_plain_witness:
  "get_type 1 [] (obj [(''type'', PStr ''array'')]) = Inr (PList [])
   \<and> get_type 1 [] (obj [(''type'', PStr ''string'')]) = Inr (PStr '''')
   \<and> get_type 1 [] (obj [(''type'', PStr ''integer'')]) = Inr (PDict [])
   \<and> get_type 1 [] (obj [(''title'', PStr ''nothing'')]) = Inr (PDict [])"
  using get_type_plain [of "obj [(''type'', PStr ''array'')]" 0 "[]"]
        get_type_plain [of "obj [(''type'', PStr ''string'')]" 0 "[]"]
        get_type_plain [of "obj [(''type'', PStr ''integer'')]" 0 "[]"]
        get_type_plain [of "obj [(''title'', PStr ''nothing'')]" 0 "[]"]
  by (simp add: obj_def)

text \<open>
  C3. A node that is a dictionary without \<^verbatim>\<open>properties\<close> and \<^verbatim>\<open>type\<close> whose
  \<^verbatim>\<open>anyOf\<close> is a list of dictionaries: \<^verbatim>\<open>_get_type\<close> returns the default of the
  first alternative, in the listed order, that has a \<^verbatim>\<open>type\<close> other than
  \<^verbatim>\<open>"null"\<close>; alternatives without a type and alternatives of type \<^verbatim>\<open>"null"\<close>
  are passed over. The default is the empty list for the type \<^verbatim>\<open>"array"\<close>, the empty
  string for \<^verbatim>\<open>"string"\<close> and the empty dictionary for any other type. The result is
  the empty dictionary when there is no such alternative, and so when no alternative has a
  \<^verbatim>\<open>type\<close> key.
\<close>

theorem get_type_anyOf:
  assumes "is_dict node"
      and "field node ''properties'' = None"
      and "field node ''type'' = None"
      and "field node ''anyOf'' = Some (PList alts)"
      and "\<forall>d \<in> set alts. is_dict d"
  shows "get_type (Suc depth) defs node =
           Inr (case find typed_alternative alts of
                  None \<Rightarrow> PDict []
                | Some d \<Rightarrow>
                    (case field d ''type'' of
                       None \<Rightarrow> PDict []
                     | Some t \<Rightarrow> if t = PStr ''array'' then PList []
                                 else if t = PStr ''string'' then PStr ''''
                                 else PDict []))
         \<and> ((\<forall>d \<in> set alts. field d ''type'' = None) \<longrightarrow>
              get_type (Suc depth) defs node = Inr (PDict []))"
proof -
  have t: "field d ''type'' \<noteq> None" if "find typed_alternative alts = Some d" for d
    using that by (auto simp: find_Some_iff typed_alternative_def split: option.splits)
  have eq: "get_type (Suc depth) defs node =
           Inr (case find typed_alternative alts of
                  None \<Rightarrow> PDict []
                | Some d \<Rightarrow>
                    (case field d ''type'' of
                       None \<Rightarrow> PDict []
                     | Some t \<Rightarrow> if t = PStr ''array'' then PList []
                                 else if t = PStr ''string'' then PStr ''''
                                 else PDict []))"
    using assms t by (auto simp: first_typed_find translate_type_cases split: option.splits)
  have "find typed_alternative alts = None" if "\<forall>d \<in> set alts. field d ''type'' = None"
    using that by (simp add: find_None_iff typed_alternative_def)
  with eq show ?thesis by simp
qed

theorem get_type_anyOf_witness:
  "get_type 1 [] (obj [(''anyOf'', PList [of_type ''null'', of_type ''string''])]) = Inr (PStr '''')
   \<and> get_type 1 [] (obj [(''anyOf'', PList [of_type ''null'', of_type ''array'', of_type ''string''])])
       = Inr (PList [])
   \<and> get_type 1 [] (obj [(''anyOf'', PList [obj [], of_type ''integer'', of_type ''array''])])
       = Inr (PDict [])
   \<and> get_type 1 [] (obj [(''anyOf'', PList [ref_to ''Bar'', obj []])]) = Inr (PDict [])"
  using get_type_anyOf [of "obj [(''anyOf'', PList [of_type ''null'', of_type ''string''])]"
          "[of_type ''null'', of_type ''string'']" 0 "[]"]
        get_type_anyOf [of "obj [(''anyOf'', PList [of_type ''null'', of_type ''array'', of_type ''string''])]"
          "[of_type ''null'', of_type ''array'', of_type ''string'']" 0 "[]"]
        get_type_anyOf [of "obj [(''anyOf'', PList [obj [], of_type ''integer'', of_type ''array''])]"
          "[obj [], of_type ''integer'', of_type ''array'']" 0 "[]"]
        get_type_anyOf [of "obj [(''anyOf'', PList [ref_to ''Bar'', obj []])]"
          "[ref_to ''Bar'', obj []]" 0 "[]"]
  by (simp add: obj_def of_type_def ref_to_def typed_alternative_def)

section \<open>The type chain\<close>

text \<open>
  C2. For a node that is a dictionary, \<^verbatim>\<open>_get_ndrm_type\<close> returns the qualified name
  \<^verbatim>\<open>ndrm:<name>\<close> first, followed by the chains of the parents. With \<^verbatim>\<open>allOf\<close> a
  list of dictionaries, every entry that has a \<^verbatim>\<open>$ref\<close> gives the full chain of the
  definition it names, the chains are concatenated in the listed order, and nothing is
  removed from them; an exception in one of them is the result. Without \<^verbatim>\<open>allOf\<close>
  and with \<^verbatim>\<open>$ref\<close>, the chain of the named definition follows the name. With neither,
  the result is the name alone. For a chain of references from the node to a definition
  \<open>bar\<close>, from \<open>bar\<close> to \<open>baz\<close>, and \<open>baz\<close> with neither key, three frames give the three
  qualified names in that order.
\<close>

theorem get_ndrm_type_chain:
  assumes "is_dict node"
  shows "(\<forall>entries. field node ''allOf'' = Some (PList entries) \<and> (\<forall>d \<in> set entries. is_dict d) \<longrightarrow>
            get_ndrm_type (Suc depth) defs name node =
              and_then (collect (ref_chain depth defs) (filter (\<lambda>d. field d ''$ref'' \<noteq> None) entries))
                (\<lambda>chains. Inr ((''ndrm:'' @ name) # concat chains)))
       \<and> (field node ''allOf'' = None \<and> field node ''$ref'' \<noteq> None \<longrightarrow>
            get_ndrm_type (Suc depth) defs name node =
              and_then (ref_chain depth defs node) (\<lambda>chain. Inr ((''ndrm:'' @ name) # chain)))
       \<and> (field node ''allOf'' = None \<and> field node ''$ref'' = None \<longrightarrow>
            get_ndrm_type (Suc depth) defs name node = Inr [''ndrm:'' @ name])
       \<and> (\<forall>bar baz p1 p2 bar_node baz_node.
            field node ''allOf'' = None \<and> field node ''$ref'' = Some (PStr p1)
            \<and> last (str_split CHR ''/'' p1) = bar \<and> definition_of defs bar = Inr bar_node
            \<and> is_dict bar_node
            \<and> field bar_node ''allOf'' = None \<and> field bar_node ''$ref'' = Some (PStr p2)
            \<and> last (str_split CHR ''/'' p2) = baz \<and> definition_of defs baz = Inr baz_node
            \<and> is_dict baz_node
            \<and> field baz_node ''allOf'' = None \<and> field baz_node ''$ref'' = None \<longrightarrow>
            get_ndrm_type (Suc (Suc (Suc depth))) defs name node =
              Inr [''ndrm:'' @ name, ''ndrm:'' @ bar, ''ndrm:'' @ baz])"
proof -
  have a: "get_ndrm_type (Suc depth) defs name node =
              and_then (collect (ref_chain depth defs) (filter (\<lambda>d. field d ''$ref'' \<noteq> None) entries))
                (\<lambda>chains. Inr ((''ndrm:'' @ name) # concat chains))"
    if "field node ''allOf'' = Some (PList entries)" "\<forall>d \<in> set entries. is_dict d" for entries
    using assms that by (simp add: chain_loop_collect)
  have b: "get_ndrm_type (Suc depth) defs name node =
              and_then (ref_chain depth defs node) (\<lambda>chain. Inr ((''ndrm:'' @ name) # chain))"
    if "field node ''allOf'' = None" "field node ''$ref'' \<noteq> None"
    using assms that by (simp add: inherit_ref_chain)
  have c: "get_ndrm_type (Suc depth) defs name node = Inr [''ndrm:'' @ name]"
    if "field node ''allOf'' = None" "field node ''$ref'' = None"
    using assms that by simp
  have d: "get_ndrm_type (Suc (Suc (Suc depth))) defs name node =
              Inr [''ndrm:'' @ name, ''ndrm:'' @ bar, ''ndrm:'' @ baz]"
    if "field node ''allOf'' = None" "field node ''$ref'' = Some (PStr p1)"
       "last (str_split CHR ''/'' p1) = bar" "definition_of defs bar = Inr bar_node"
       "is_dict bar_node"
       "field bar_node ''allOf'' = None" "field bar_node ''$ref'' = Some (PStr p2)"
       "last (str_split CHR ''/'' p2) = baz" "definition_of defs baz = Inr baz_node"
       "is_dict baz_node"
       "field baz_node ''allOf'' = None" "field baz_node ''$ref'' = None"
    for bar baz p1 p2 bar_node baz_node
    using assms that by (simp add: inherit_def)
  show ?thesis
    using a b c d by blast
qed

theorem get_ndrm_type_chain_witness:
  "get_ndrm_type 3 chain_defs ''Foo'' (ref_to ''Bar'') = Inr [''ndrm:Foo'', ''ndrm:Bar'', ''ndrm:Baz'']
   \<and> get_ndrm_type 3 diamond_defs ''Bottom''
         (obj [(''allOf'', PList [ref_to ''Left'', of_type ''object'', ref_to ''Right''])]) =
       Inr [''ndrm:Bottom'', ''ndrm:Left'', ''ndrm:Top'', ''ndrm:Right'', ''ndrm:Top'']"
proof -
  have dict: "is_dict (ref_to n)" "is_dict (of_type t)" "is_dict (obj kvs)" for n t kvs
    by (simp_all add: ref_to_def of_type_def obj_def)
  have f: "field (ref_to n) ''allOf'' = None"
          "field (ref_to n) ''$ref'' = Some (PStr (''#/definitions/'' @ n))"
          "field (of_type t) ''allOf'' = None" "field (of_type t) ''$ref'' = None" for n t
    by (simp_all add: ref_to_def of_type_def obj_def)
  have l: "last (str_split CHR ''/'' ''#/definitions/Bar'') = ''Bar''"
          "last (str_split CHR ''/'' ''#/definitions/Baz'') = ''Baz''"
    by simp_all
  have defs: "definition_of chain_defs ''Bar'' = Inr (ref_to ''Baz'')"
             "definition_of chain_defs ''Baz'' = Inr (of_type ''object'')"
    by (simp_all add: definition_of_def chain_defs_def)
  have chain: "get_ndrm_type 3 chain_defs ''Foo'' (ref_to ''Bar'') =
                 Inr [''ndrm:Foo'', ''ndrm:Bar'', ''ndrm:Baz'']"
    using get_ndrm_type_chain [OF dict(1), of "''Bar''" 0 chain_defs "''Foo''"] dict f l defs
    by (simp add: eval_nat_numeral)
  have chains: "collect (ref_chain 2 diamond_defs) [ref_to ''Left'', ref_to ''Right''] =
                  Inr [[''ndrm:Left'', ''ndrm:Top''], [''ndrm:Right'', ''ndrm:Top'']]"
    by code_simp
  have diamond: "get_ndrm_type 3 diamond_defs ''Bottom''
         (obj [(''allOf'', PList [ref_to ''Left'', of_type ''object'', ref_to ''Right''])]) =
       Inr [''ndrm:Bottom'', ''ndrm:Left'', ''ndrm:Top'', ''ndrm:Right'', ''ndrm:Top'']"
    using get_ndrm_type_chain [OF dict(3),
            of "[(''allOf'', PList [ref_to ''Left'', of_type ''object'', ref_to ''Right''])]"
               2 diamond_defs "''Bottom''"]
          dict f chains
    by (simp add: eval_nat_numeral obj_def)
  show ?thesis using chain diamond by simp
qed

section \<open>Unknown definitions\<close>

text \<open>
  A name that is no key of the definitions: looking it up raises \<open>KeyError\<close>, a
  \<open>LookupError\<close>, and so does every operation at the places where it resolves a
  \<^verbatim>\<open>$ref\<close> whose last segment is that name. These are \<^verbatim>\<open>_get_type\<close> and
  \<^verbatim>\<open>_get_properties\<close> on a node without \<^verbatim>\<open>properties\<close>, \<^verbatim>\<open>type\<close> and
  \<^verbatim>\<open>anyOf\<close>, \<^verbatim>\<open>_get_properties\<close> on a node without \<^verbatim>\<open>properties\<close>
  whose default is a dictionary, \<^verbatim>\<open>_get_ndrm_type\<close> on a node without
  \<^verbatim>\<open>allOf\<close>, and \<^verbatim>\<open>_get_prop_type\<close> for a property whose sub-schema is the
  node and has no \<^verbatim>\<open>type\<close>. With the node as an entry of the \<^verbatim>\<open>allOf\<close> of a
  parent, \<^verbatim>\<open>_get_ndrm_type\<close> on the parent raises, and so does
  \<^verbatim>\<open>_get_properties\<close> when the entry has no \<^verbatim>\<open>required\<close>; the exception is
  \<open>KeyError\<close> when the entries before the node have nothing to resolve or to merge.
\<close>

lemma unknown_definition_raises:
  assumes "map_of defs (PStr name) = None"
      and "is_dict node"
      and "field node ''$ref'' = Some (PStr path)"
      and "last (str_split CHR ''/'' path) = name"
  shows "definition_of defs name = Inl KeyError
       \<and> (field node ''properties'' = None \<and> field node ''type'' = None \<and> field node ''anyOf'' = None \<longrightarrow>
            get_type (Suc depth) defs node = Inl KeyError
          \<and> get_properties (Suc (Suc depth)) defs node = Inl KeyError)
       \<and> (field node ''properties'' = None \<and> (\<exists>ty. get_type depth defs node = Inr ty \<and> is_dict ty) \<longrightarrow>
            get_properties (Suc depth) defs node = Inl KeyError)
       \<and> (field node ''allOf'' = None \<longrightarrow>
            get_ndrm_type (Suc depth) defs chain_name node = Inl KeyError)
       \<and> (\<forall>schema props. is_dict schema \<and> field schema ''properties'' = Some (PDict props)
             \<and> map_of props (PStr prop_name) = Some node \<and> field node ''type'' = None \<longrightarrow>
            get_prop_type (Suc depth) defs (PStr prop_name) schema = Inl KeyError)
       \<and> (\<forall>parent entries. is_dict parent \<and> field parent ''allOf'' = Some (PList entries)
             \<and> node \<in> set entries \<longrightarrow>
            (\<exists>e. get_ndrm_type (Suc depth) defs chain_name parent = Inl e))
       \<and> (\<forall>parent earlier later. is_dict parent
             \<and> field parent ''allOf'' = Some (PList (earlier @ node # later))
             \<and> (\<forall>d \<in> set earlier. is_dict d \<and> field d ''$ref'' = None) \<longrightarrow>
            get_ndrm_type (Suc depth) defs chain_name parent = Inl KeyError)
       \<and> (\<forall>parent entries ty. is_dict parent \<and> field parent ''properties'' = None
             \<and> field parent ''$ref'' = None \<and> field parent ''allOf'' = Some (PList entries)
             \<and> get_type depth defs parent = Inr ty \<and> is_dict ty
             \<and> node \<in> set entries \<and> field node ''required'' = None \<longrightarrow>
            (\<exists>e. get_properties (Suc depth) defs parent = Inl e))
       \<and> (\<forall>parent earlier later ty. is_dict parent \<and> field parent ''properties'' = None
             \<and> field parent ''$ref'' = None
             \<and> field parent ''allOf'' = Some (PList (earlier @ node # later))
             \<and> get_type depth defs parent = Inr ty \<and> is_dict ty
             \<and> (\<forall>d \<in> set earlier. is_dict d \<and> field d ''properties'' = None
                    \<and> field d ''required'' = None \<and> field d ''$ref'' = None)
             \<and> field node ''properties'' = None \<and> field node ''required'' = None \<longrightarrow>
            get_properties (Suc depth) defs parent = Inl KeyError)"
proof -
  have d: "definition_of defs name = Inl KeyError"
    using assms(1) by (simp add: definition_of_def)
  have d': "definition_of defs (last (str_split CHR ''/'' path)) = Inl KeyError"
    using d assms(4) by simp
  let ?chain = "chain_step defs (get_ndrm_type depth defs)"
  let ?merge = "allOf_step defs (get_prop_type depth defs) (get_properties depth defs)"
  have c1: "\<exists>e. get_ndrm_type (Suc depth) defs chain_name parent = Inl e"
    if "is_dict parent" "field parent ''allOf'' = Some (PList entries)" "node \<in> set entries"
    for parent entries
  proof -
    have "\<exists>e. for_each ?chain entries [''ndrm:'' @ chain_name] = Inl e"
      by (rule for_each_raises [OF that(3)])
         (simp add: chain_step_unknown [OF assms(2,3) d'])
    then show ?thesis using that(1,2) by simp
  qed
  have c2: "get_ndrm_type (Suc depth) defs chain_name parent = Inl KeyError"
    if "is_dict parent" "field parent ''allOf'' = Some (PList (earlier @ node # later))"
       "\<forall>d \<in> set earlier. is_dict d \<and> field d ''$ref'' = None"
    for parent earlier later
  proof -
    have "for_each ?chain earlier [''ndrm:'' @ chain_name] = Inr [''ndrm:'' @ chain_name]"
      by (rule for_each_skips) (use that(3) in \<open>simp add: chain_step_no_ref\<close>)
    then have "for_each ?chain (earlier @ node # later) [''ndrm:'' @ chain_name] = Inl KeyError"
      by (simp add: for_each_append chain_step_unknown [OF assms(2,3) d'])
    then show ?thesis using that(1,2) by simp
  qed
  have m1: "\<exists>e. get_properties (Suc depth) defs parent = Inl e"
    if "is_dict parent" "field parent ''properties'' = None" "field parent ''$ref'' = None"
       "field parent ''allOf'' = Some (PList entries)"
       "get_type depth defs parent = Inr ty" "is_dict ty"
       "node \<in> set entries" "field node ''required'' = None"
    for parent entries ty
  proof -
    have "\<exists>e. for_each ?merge entries ([], [], []) = Inl e"
      by (rule for_each_raises [OF that(7)])
         (rule allOf_step_unknown(1) [OF assms(2,3) d' that(8)])
    then show ?thesis
      using get_properties_allOf [OF that(1-6)] by auto
  qed
  have m2: "get_properties (Suc depth) defs parent = Inl KeyError"
    if "is_dict parent" "field parent ''properties'' = None" "field parent ''$ref'' = None"
       "field parent ''allOf'' = Some (PList (earlier @ node # later))"
       "get_type depth defs parent = Inr ty" "is_dict ty"
       "\<forall>d \<in> set earlier. is_dict d \<and> field d ''properties'' = None
                    \<and> field d ''required'' = None \<and> field d ''$ref'' = None"
       "field node ''properties'' = None" "field node ''required'' = None"
    for parent earlier later ty
  proof -
    have "for_each ?merge earlier ([], [], []) = Inr ([], [], [])"
      by (rule for_each_skips) (use that(7) in \<open>simp add: allOf_step_plain\<close>)
    then have "for_each ?merge (earlier @ node # later) ([], [], []) = Inl KeyError"
      by (simp add: for_each_append allOf_step_unknown(2) [OF assms(2,3) d' that(9,8)])
    then show ?thesis
      using get_properties_allOf [OF that(1-6)] by simp
  qed
  have n: "ref_name (PStr path) = Inr name"
    using assms(4) by simp
  note r = assms(2,3) d n
  have gt: "get_type (Suc depth) defs node = Inl KeyError"
    if "field node ''properties'' = None" "field node ''type'' = None" "field node ''anyOf'' = None"
    using r that by (simp del: ref_name.simps)
  have gp1: "get_properties (Suc (Suc depth)) defs node = Inl KeyError"
    if "field node ''properties'' = None" "field node ''type'' = None" "field node ''anyOf'' = None"
    using gt [OF that] by (simp del: get_type.simps)
  have gp2: "get_properties (Suc depth) defs node = Inl KeyError"
    if "field node ''properties'' = None" "get_type depth defs node = Inr ty" "is_dict ty" for ty
    using r that by (simp del: ref_name.simps get_type.simps)
  have gn: "get_ndrm_type (Suc depth) defs chain_name node = Inl KeyError"
    if "field node ''allOf'' = None"
    using r that by (simp add: inherit_def del: ref_name.simps)
  have gpt: "get_prop_type (Suc depth) defs (PStr prop_name) schema = Inl KeyError"
    if "is_dict schema" "field schema ''properties'' = Some (PDict props)"
       "map_of props (PStr prop_name) = Some node" "field node ''type'' = None" for schema props
    using r that by (simp del: ref_name.simps get_type.simps)
  have p2: "field node ''properties'' = None \<and> field node ''type'' = None \<and> field node ''anyOf'' = None \<longrightarrow>
            get_type (Suc depth) defs node = Inl KeyError
          \<and> get_properties (Suc (Suc depth)) defs node = Inl KeyError"
    using gt gp1 by blast
  have p3: "field node ''properties'' = None \<and> (\<exists>ty. get_type depth defs node = Inr ty \<and> is_dict ty) \<longrightarrow>
            get_properties (Suc depth) defs node = Inl KeyError"
    using gp2 by blast
  have p4: "field node ''allOf'' = None \<longrightarrow>
            get_ndrm_type (Suc depth) defs chain_name node = Inl KeyError"
    using gn by blast
  have p5: "\<forall>schema props. is_dict schema \<and> field schema ''properties'' = Some (PDict props)
             \<and> map_of props (PStr prop_name) = Some node \<and> field node ''type'' = None \<longrightarrow>
            get_prop_type (Suc depth) defs (PStr prop_name) schema = Inl KeyError"
    using gpt by blast
  have p6: "\<forall>parent entries. is_dict parent \<and> field parent ''allOf'' = Some (PList entries)
             \<and> node \<in> set entries \<longrightarrow>
            (\<exists>e. get_ndrm_type (Suc depth) defs chain_name parent = Inl e)"
    using c1 by blast
  have p7: "\<forall>parent earlier later. is_dict parent
             \<and> field parent ''allOf'' = Some (PList (earlier @ node # later))
             \<and> (\<forall>d \<in> set earlier. is_dict d \<and> field d ''$ref'' = None) \<longrightarrow>
            get_ndrm_type (Suc depth) defs chain_name parent = Inl KeyError"
    using c2 by blast
  have p8: "\<forall>parent entries ty. is_dict parent \<and> field parent ''properties'' = None
             \<and> field parent ''$ref'' = None \<and> field parent ''allOf'' = Some (PList entries)
             \<and> get_type depth defs parent = Inr ty \<and> is_dict ty
             \<and> node \<in> set entries \<and> field node ''required'' = None \<longrightarrow>
            (\<exists>e. get_properties (Suc depth) defs parent = Inl e)"
    using m1 by blast
  have p9: "\<forall>parent earlier later ty. is_dict parent \<and> field parent ''properties'' = None
             \<and> field parent ''$ref'' = None
             \<and> field parent ''allOf'' = Some (PList (earlier @ node # later))
             \<and> get_type depth defs parent = Inr ty \<and> is_dict ty
             \<and> (\<forall>d \<in> set earlier. is_dict d \<and> field d ''properties'' = None
                    \<and> field d ''required'' = None \<and> field d ''$ref'' = None)
             \<and> field node ''properties'' = None \<and> field node ''required'' = None \<longrightarrow>
            get_properties (Suc depth) defs parent = Inl KeyError"
    using m2 by blast
  show ?thesis
    by (intro conjI) (rule d, rule p2, rule p3, rule p4, rule p5, rule p6, rule p7, rule p8, rule p9)
qed

text \<open>
  C8. The node \<^verbatim>\<open>{"allOf": [{"$ref": "#/definitions/Ghost", "required": []}]}\<close>,
  where no definition has the name \<^verbatim>\<open>Ghost\<close>: looking the name up raises
  \<open>KeyError\<close>, and \<^verbatim>\<open>_get_properties\<close> on the node raises nothing. It returns the
  empty dictionary, no required name and no default, since the entry has a
  \<^verbatim>\<open>required\<close> key and its \<^verbatim>\<open>$ref\<close> is read in the \<^verbatim>\<open>elif\<close> of the
  test for that key. With the same entry without \<^verbatim>\<open>required\<close> the operation raises
  \<open>KeyError\<close>, and \<^verbatim>\<open>_get_ndrm_type\<close> raises \<open>KeyError\<close> on the node as it is.
\<close>

theorem dangling_ref_beside_required_is_silent:
  "definition_of base_defs ''Ghost'' = Inl KeyError
   \<and> get_properties 2 base_defs silent_parent = Inr (Some (PDict [], PList [], []))
   \<and> get_properties 2 base_defs (obj [(''allOf'', PList [ref_to ''Ghost''])]) = Inl KeyError
   \<and> get_ndrm_type 1 base_defs ''Derived'' silent_parent = Inl KeyError"
  by code_simp

section \<open>The default value of a property\<close>

text \<open>
  C9. A schema that is a dictionary without \<^verbatim>\<open>properties\<close>, or whose
  \<^verbatim>\<open>properties\<close> is a dictionary without the name: \<^verbatim>\<open>_get_prop_type\<close> returns
  the empty string for that name, whatever else the schema holds.
\<close>

theorem get_prop_type_missing:
  assumes "is_dict schema"
      and "case field schema ''properties'' of
             None \<Rightarrow> True
           | Some props \<Rightarrow> is_dict props \<and> field props name = None"
  shows "get_prop_type (Suc depth) defs (PStr name) schema = Inr (PStr '''')"
  using assms by (auto split: option.splits)

theorem get_prop_type_missing_witness:
  "get_prop_type 1 [] (PStr ''age'') (of_type ''object'') = Inr (PStr '''')
   \<and> get_prop_type 1 [] (PStr ''age'') (obj [(''properties'', obj [(''name'', of_type ''array'')])])
       = Inr (PStr '''')"
  using get_prop_type_missing [of "of_type ''object''" "''age''" 0 "[]"]
        get_prop_type_missing [of "obj [(''properties'', obj [(''name'', of_type ''array'')])]"
          "''age''" 0 "[]"]
  by (simp add: obj_def of_type_def)

text \<open>The second loop over \<^verbatim>\<open>anyOf\<close> never returns a value when it finds an
  alternative with a \<^verbatim>\<open>$ref\<close>: it is reached for a property without
  \<^verbatim>\<open>$ref\<close> only, and reads the \<^verbatim>\<open>$ref\<close> of the property.\<close>

lemma first_ref_raises:
  assumes "\<forall>d \<in> set alts. is_dict d" and "\<exists>d \<in> set alts. field d ''$ref'' \<noteq> None"
  shows "first_ref (Inl e) alts = Inl e"
  using assms by (induction alts) auto

lemma anyOf_ref_always_raises:
  assumes "is_dict schema"
      and "field schema ''properties'' = Some (PDict ps)"
      and "map_of ps (PStr k) = Some prop"
      and "is_dict prop"
      and "field prop ''type'' = None" and "field prop ''$ref'' = None"
      and "field prop ''allOf'' = None"
      and "field prop ''anyOf'' = Some (PList alts)"
      and "\<forall>d \<in> set alts. is_dict d"
      and "find typed_alternative alts = None"
      and "\<exists>d \<in> set alts. field d ''$ref'' \<noteq> None"
  shows "get_prop_type (Suc depth) defs (PStr k) schema = Inl KeyError"
  using assms
  by (simp add: first_typed_find first_ref_raises del: get_type.simps)

text \<open>
  C7. The property \<open>p\<close> of the schema
  \<^verbatim>\<open>{"properties": {"p": {"anyOf": [{"$ref": "#/definitions/Bar"}]}}}\<close>, with
  \<^verbatim>\<open>"Bar": {"type": "string"}\<close> among the definitions: the alternative has a
  \<^verbatim>\<open>$ref\<close> and no \<^verbatim>\<open>type\<close>, and \<^verbatim>\<open>_get_prop_type\<close> raises \<open>KeyError\<close>,
  since it reads the \<^verbatim>\<open>$ref\<close> of the property, which has none. The default of the
  definition that the alternative names is the empty string.
\<close>

theorem get_prop_type_anyOf_ref_raises:
  "get_prop_type 2 base_defs (PStr ''p'')
     (obj [(''properties'', obj [(''p'', obj [(''anyOf'', PList [ref_to ''Bar''])])])]) = Inl KeyError
   \<and> get_type 2 base_defs (ref_to ''Bar'') = Inr (PStr '''')"
  by code_simp

section \<open>The properties of a node\<close>

text \<open>
  C10. A node that is a dictionary without \<^verbatim>\<open>properties\<close>, \<^verbatim>\<open>$ref\<close> and
  \<^verbatim>\<open>allOf\<close>, and whose default value is a dictionary: \<^verbatim>\<open>_get_properties\<close> ends
  without a \<^verbatim>\<open>return\<close>, so its value is \<^verbatim>\<open>None\<close> and not a triple.
\<close>

theorem get_properties_no_return:
  assumes "is_dict schema"
      and "field schema ''properties'' = None"
      and "field schema ''$ref'' = None"
      and "field schema ''allOf'' = None"
      and "get_type (Suc depth) defs schema = Inr ty"
      and "is_dict ty"
  shows "get_properties (Suc (Suc depth)) defs schema = Inr None"
  using assms by (simp del: get_type.simps)

theorem get_properties_no_return_witness:
  "get_properties 2 [] (of_type ''object'') = Inr None
   \<and> get_properties 2 [] (PDict []) = Inr None"
  using get_properties_no_return [of "of_type ''object''" 0 "[]" "PDict []"]
        get_properties_no_return [of "PDict []" 0 "[]" "PDict []"]
  by (simp add: obj_def of_type_def translate_type_cases numeral_2_eq_2)

text \<open>An entry of \<^verbatim>\<open>allOf\<close> that has a \<^verbatim>\<open>required\<close> key: what the loop
  does with it depends neither on the definitions nor on the recursive call, so its
  \<^verbatim>\<open>$ref\<close> is not read.\<close>

lemma allOf_step_required_ignores_ref:
  assumes "is_dict d" and "field d ''required'' \<noteq> None"
  shows "allOf_step defs pt po d s = allOf_step defs' pt po' d s"
  using assms by (cases s) (auto simp: allOf_step_def)

text \<open>
  C5. The node \<^verbatim>\<open>{"allOf": [{"$ref": "#/definitions/Base", "required": ["y"]}]}\<close>,
  with \<^verbatim>\<open>"Base": {"properties": {"x": {"type": "string"}}, "required": ["x"]}\<close> among
  the definitions: the entry has a \<^verbatim>\<open>$ref\<close> and a \<^verbatim>\<open>required\<close>, and
  \<^verbatim>\<open>_get_properties\<close> returns no property and the one required name \<open>y\<close>; the
  property \<open>x\<close> of \<open>Base\<close> is absent. The same entry without \<^verbatim>\<open>required\<close> gives
  the property and the required name of \<open>Base\<close>, and \<^verbatim>\<open>_get_ndrm_type\<close> counts
  \<open>Base\<close> as a parent of the node in both cases.
\<close>

theorem allOf_ref_with_required_not_resolved:
  "get_properties 3 base_defs
     (obj [(''allOf'', PList [obj [(''$ref'', PStr ''#/definitions/Base''),
                                   (''required'', PList [PStr ''y''])]])]) =
     Inr (Some (PDict [], PList [PStr ''y''], [PStr '''']))
   \<and> get_properties 3 base_defs (obj [(''allOf'', PList [ref_to ''Base''])]) =
     Inr (Some (obj [(''x'', of_type ''string'')], PList [PStr ''x''], [PStr '''']))
   \<and> get_ndrm_type 2 base_defs ''Derived''
     (obj [(''allOf'', PList [obj [(''$ref'', PStr ''#/definitions/Base''),
                                   (''required'', PList [PStr ''y''])]])]) =
     Inr [''ndrm:Derived'', ''ndrm:Base'']"
  by code_simp







end
